theory Spec2Isabelle
  imports Complex_Main "HOL-Library.Word"
begin

unbundle bit_operations_syntax

section \<open>Data of the rendering demo\<close>

text \<open>
  The demo (\<^verbatim>\<open>src/main.cpp\<close>, and its earlier one-attachment version) drives an external
  software rasterizer. The structs \<^verbatim>\<open>image_t\<close>, \<^verbatim>\<open>image_pixel\<close> and \<^verbatim>\<open>framebuffer\<close> are
  declared in the rasterizer's headers; the records below hold the fields the demo reads
  and writes. \<^verbatim>\<open>float\<close> values are idealised as reals (exact arithmetic), \<^verbatim>\<open>uint32_t\<close> is a
  32-bit word, and a pointer \<^verbatim>\<open>image_t*\<close> is an \<open>image_t option\<close> with \<open>None\<close> for
  \<^verbatim>\<open>nullptr\<close>; \<open>image_id\<close> tells one allocated image from another.
\<close>

type_synonym u32 = "32 word"

datatype image_format = IMAGE_FORMAT_COLOR | IMAGE_FORMAT_DEPTH

record image_t =
  image_id :: nat
  image_width :: u32
  image_height :: u32
  image_format :: image_format

text \<open>The union \<^verbatim>\<open>image_pixel\<close>: a packed colour or a depth value.\<close>

datatype image_pixel = color u32 | depth real

text \<open>
  \<^verbatim>\<open>fb.attachments\<close> points at the storage of the vector \<^verbatim>\<open>attachments\<close> of \<^verbatim>\<open>main\<close>, so the
  vector and the framebuffer's array are one list here; \<open>attachment_count\<close> is the separate
  field the code compares against.
\<close>

record framebuffer =
  fb_width :: u32
  fb_height :: u32
  attachment_count :: u32
  attachments :: "image_t option list"

subsection \<open>Vectors and matrices\<close>

text \<open>
  \<^verbatim>\<open>glm::mat4\<close> is column-major: \<^verbatim>\<open>m[c][r]\<close> is row \<open>r\<close> of column \<open>c\<close>. The products are
  those of \<^verbatim>\<open>glm\<close>: \<open>m * v\<close> is the combination of the columns of \<open>m\<close> weighted by \<open>v\<close>, and
  the columns of \<open>a * b\<close> are \<open>a\<close> times the columns of \<open>b\<close>.
\<close>

datatype vec3 = Vec3 real real real

datatype vec4 = Vec4 real real real real

datatype mat4 = Mat4 vec4 vec4 vec4 vec4

fun vec4_of_vec3 :: "vec3 \<Rightarrow> real \<Rightarrow> vec4" where
  "vec4_of_vec3 (Vec3 x y z) w = Vec4 x y z w"

fun vec4_get :: "vec4 \<Rightarrow> nat \<Rightarrow> real" where
  "vec4_get (Vec4 x y z w) i =
     (if i = 0 then x else if i = 1 then y else if i = 2 then z else w)"

fun vec4_set :: "vec4 \<Rightarrow> nat \<Rightarrow> real \<Rightarrow> vec4" where
  "vec4_set (Vec4 x y z w) i a =
     (if i = 0 then Vec4 a y z w else if i = 1 then Vec4 x a z w
      else if i = 2 then Vec4 x y a w else Vec4 x y z a)"

fun mat4_col :: "mat4 \<Rightarrow> nat \<Rightarrow> vec4" where
  "mat4_col (Mat4 c0 c1 c2 c3) j =
     (if j = 0 then c0 else if j = 1 then c1 else if j = 2 then c2 else c3)"

fun mat4_set_col :: "mat4 \<Rightarrow> nat \<Rightarrow> vec4 \<Rightarrow> mat4" where
  "mat4_set_col (Mat4 c0 c1 c2 c3) j v =
     (if j = 0 then Mat4 v c1 c2 c3 else if j = 1 then Mat4 c0 v c2 c3
      else if j = 2 then Mat4 c0 c1 v c3 else Mat4 c0 c1 c2 v)"

definition mat4_get :: "mat4 \<Rightarrow> nat \<Rightarrow> nat \<Rightarrow> real" where
  "mat4_get m c r = vec4_get (mat4_col m c) r"

definition mat4_set :: "mat4 \<Rightarrow> nat \<Rightarrow> nat \<Rightarrow> real \<Rightarrow> mat4" where
  "mat4_set m c r a = mat4_set_col m c (vec4_set (mat4_col m c) r a)"

text \<open>\<^verbatim>\<open>glm::mat4(1.f)\<close>: the identity.\<close>

definition mat4_diag :: "real \<Rightarrow> mat4" where
  "mat4_diag a = Mat4 (Vec4 a 0 0 0) (Vec4 0 a 0 0) (Vec4 0 0 a 0) (Vec4 0 0 0 a)"

fun vec4_scale :: "vec4 \<Rightarrow> real \<Rightarrow> vec4" where
  "vec4_scale (Vec4 x y z w) a = Vec4 (x * a) (y * a) (z * a) (w * a)"

fun vec4_add :: "vec4 \<Rightarrow> vec4 \<Rightarrow> vec4" where
  "vec4_add (Vec4 x y z w) (Vec4 x' y' z' w') = Vec4 (x + x') (y + y') (z + z') (w + w')"

fun mat4_mul_vec :: "mat4 \<Rightarrow> vec4 \<Rightarrow> vec4" where
  "mat4_mul_vec (Mat4 c0 c1 c2 c3) (Vec4 x y z w) =
     vec4_add (vec4_add (vec4_add (vec4_scale c0 x) (vec4_scale c1 y)) (vec4_scale c2 z))
       (vec4_scale c3 w)"

fun mat4_mul :: "mat4 \<Rightarrow> mat4 \<Rightarrow> mat4" where
  "mat4_mul a (Mat4 c0 c1 c2 c3) =
     Mat4 (mat4_mul_vec a c0) (mat4_mul_vec a c1) (mat4_mul_vec a c2) (mat4_mul_vec a c3)"

subsection \<open>Shader data\<close>

record Uniforms =
  Projection :: mat4
  View :: mat4

record Vertex =
  Position :: vec3

record Instance =
  Model :: mat4
  Color :: u32

record WorkingData =
  wd_Color :: u32

subsection \<open>Calls into the external libraries\<close>

text \<open>
  The rasterizer, the image allocator, the overlay renderer and the window are opaque to
  the demo. A call into them is recorded, with the values of its arguments at the time of
  the call, in the order the calls are made. Of the draw call the record keeps what
  changes from frame to frame, the framebuffer and the uniform block it points to, and the
  two counts; pipeline, vertex buffers and indices are set once and never change.
\<close>

record indexed_render_call =
  call_framebuffer :: framebuffer
  call_uniform_data :: Uniforms
  index_count :: u32
  instance_count :: u32

datatype event =
    ImageFree "image_t option"
  | ImageAllocate u32 u32 image_format
  | FramebufferClear framebuffer "image_pixel list"
  | RenderIndexedCall indexed_render_call
  | ImguiRender framebuffer
  | WindowSwapBuffers

text \<open>
  The state of \<^verbatim>\<open>main\<close>: its framebuffer (with the attachment vector), the camera angle, the
  uniform block, and the calls made so far; \<open>next_image\<close> numbers the images the allocator
  hands out.
\<close>

record state =
  fb :: framebuffer
  cameraTheta :: real
  uniforms :: Uniforms
  events :: "event list"
  next_image :: nat

datatype error = runtime_error string

definition emit :: "event \<Rightarrow> state \<Rightarrow> state" where
  "emit e s = s\<lparr>events := events s @ [e]\<rparr>"

section \<open>Rasterizer wrapper\<close>

text \<open>
  The rasterizer's own \<^verbatim>\<open>framebuffer_clear\<close> and \<^verbatim>\<open>render_indexed\<close>, and the overlay's
  \<^verbatim>\<open>imgui_render\<close>, are external: the model records the call.
\<close>

definition framebuffer_clear :: "framebuffer \<Rightarrow> image_pixel list \<Rightarrow> state \<Rightarrow> state" where
  "framebuffer_clear f clearValues s = emit (FramebufferClear f clearValues) s"

definition render_indexed :: "indexed_render_call \<Rightarrow> state \<Rightarrow> state" where
  "render_indexed c s = emit (RenderIndexedCall c) s"

definition imgui_render :: "framebuffer \<Rightarrow> state \<Rightarrow> state" where
  "imgui_render f s = emit (ImguiRender f) s"

text \<open>
  \<^verbatim>\<open>Rasterizer::ClearFramebuffer\<close> (the same in both files). The framebuffer is passed by
  pointer: the function gets its value and the state that holds it. A \<^verbatim>\<open>throw\<close> returns
  the error together with the state at the moment it is raised. The comparison is between
  a \<^verbatim>\<open>size_t\<close> and a \<^verbatim>\<open>uint32_t\<close>, which is the comparison of the two numbers.
\<close>

definition ClearFramebuffer ::
  "framebuffer \<Rightarrow> image_pixel list \<Rightarrow> state \<Rightarrow> (error + unit) \<times> state" where
  "ClearFramebuffer f clearValues s =
     (if length clearValues \<noteq> unat (attachment_count f)
      then (Inl (runtime_error ''Attachment size mismatch!''), s)
      else (Inr (), framebuffer_clear f clearValues s))"

definition RenderIndexed :: "indexed_render_call \<Rightarrow> state \<Rightarrow> state" where
  "RenderIndexed c s = render_indexed c s"

definition ImGuiRenderer_Render :: "framebuffer \<Rightarrow> state \<Rightarrow> state" where
  "ImGuiRenderer_Render f s = imgui_render f s"

section \<open>Window and image allocator\<close>

text \<open>
  What the window reports during one iteration of the frame loop, after \<^verbatim>\<open>Window::Poll\<close>:
  the framebuffer size and the backbuffer. The getters only read it.
\<close>

record window =
  framebuffer_size :: "u32 \<times> u32"
  backbuffer :: "image_t option"

definition GetFramebufferSize :: "window \<Rightarrow> u32 \<times> u32" where
  "GetFramebufferSize w = framebuffer_size w"

definition GetBackbuffer :: "window \<Rightarrow> image_t option" where
  "GetBackbuffer w = backbuffer w"

definition SwapBuffers :: "state \<Rightarrow> state" where
  "SwapBuffers s = emit WindowSwapBuffers s"

text \<open>
  Modelled from the spec: the image allocator of the rasterizer library, which is not part
  of the sources: "allocate(width, height, format) \<rightarrow> handle; free(handle)". An allocation
  returns a new image of the requested width, height and format; both calls are recorded.
  \<^verbatim>\<open>image_free\<close> is recorded with the pointer it is given, also when that is \<^verbatim>\<open>nullptr\<close>.
\<close>

definition image_allocate ::
  "u32 \<Rightarrow> u32 \<Rightarrow> image_format \<Rightarrow> state \<Rightarrow> image_t option \<times> state" where
  "image_allocate w h f s =
     (Some \<lparr>image_id = next_image s, image_width = w, image_height = h, image_format = f\<rparr>,
      (emit (ImageAllocate w h f) s)\<lparr>next_image := Suc (next_image s)\<rparr>)"

definition image_free :: "image_t option \<Rightarrow> state \<Rightarrow> state" where
  "image_free p s = emit (ImageFree p) s"

section \<open>Depth buffer validation\<close>

definition IsDepthBufferValid :: "image_t option \<Rightarrow> u32 \<Rightarrow> u32 \<Rightarrow> bool" where
  "IsDepthBufferValid buffer width height =
     (case buffer of
        None \<Rightarrow> False
      | Some b \<Rightarrow> image_width b = width \<and> image_height b = height)"

text \<open>
  \<^verbatim>\<open>ValidateDepthBuffer(window, &buffer)\<close>: the pointer behind \<^verbatim>\<open>buffer\<close> comes in and its
  new value is returned.
\<close>

definition ValidateDepthBuffer ::
  "window \<Rightarrow> image_t option \<Rightarrow> state \<Rightarrow> image_t option \<times> state" where
  "ValidateDepthBuffer w buffer s =
     (let (width, height) = GetFramebufferSize w
      in if \<not> IsDepthBufferValid buffer width height
         then image_allocate width height IMAGE_FORMAT_DEPTH (image_free buffer s)
         else (buffer, s))"

section \<open>Shader stages\<close>

text \<open>
  \<^verbatim>\<open>VertexShader\<close> reads the current vertex (slot 0), the current instance (slot 1) and the
  uniform block, and writes the four floats of the position and the working data: both are
  returned. \<^verbatim>\<open>FragmentShader\<close> reads the working data of its context.
\<close>

definition VertexShader :: "Vertex \<Rightarrow> Instance \<Rightarrow> Uniforms \<Rightarrow> vec4 \<times> WorkingData" where
  "VertexShader vertex inst unis =
     (let vertexPos = vec4_of_vec3 (Position vertex) 1;
          worldPos = mat4_mul_vec (Model inst) vertexPos;
          viewPos = mat4_mul_vec (View unis) worldPos;
          screenPos = mat4_mul_vec (Projection unis) viewPos
      in (screenPos, \<lparr>wd_Color = Color inst\<rparr>))"

definition FragmentShader :: "WorkingData \<Rightarrow> u32" where
  "FragmentShader workingData = wd_Color workingData"

section \<open>Instance generation\<close>

text \<open>
  \<^verbatim>\<open>rand()\<close> is the C library's: \<open>draws\<close> is the sequence of values it returns and the
  position in it is the generator's state.
\<close>

definition rand :: "(nat \<Rightarrow> int) \<Rightarrow> nat \<Rightarrow> int \<times> nat" where
  "rand draws pos = (draws pos, Suc pos)"

text \<open>
  One round of the channel loop: \<^verbatim>\<open>uint8_t channel = rand() & 0xFF\<close>, then
  \<^verbatim>\<open>instance.Color |= channel << ((j + 1) * 8)\<close>. The shift is done on \<^verbatim>\<open>int\<close> and the result
  converted to \<^verbatim>\<open>uint32_t\<close>, that is, taken modulo \<open>2 ^ 32\<close>.
\<close>

definition add_channel :: "(nat \<Rightarrow> int) \<Rightarrow> nat \<Rightarrow> u32 \<times> nat \<Rightarrow> u32 \<times> nat" where
  "add_channel draws j cp =
     (let (c, pos) = cp;
          (r, pos') = rand draws pos;
          channel = (word_of_int (r AND 0xFF) :: 8 word)
      in (c OR word_of_int (push_bit ((j + 1) * 8) (uint channel)), pos'))"

definition instance_color :: "(nat \<Rightarrow> int) \<Rightarrow> nat \<Rightarrow> u32 \<times> nat" where
  "instance_color draws pos = fold (add_channel draws) [0..<3] (0xFF, pos)"

definition scale_matrix :: mat4 where
  "scale_matrix = fold (\<lambda>j m. mat4_set m j j (mat4_get m j j * 0.25)) [0..<3] (mat4_diag 1)"

definition rotation_matrix :: "real \<Rightarrow> mat4" where
  "rotation_matrix theta =
     (let rotation = mat4_diag 1;
          cos_theta = cos theta;
          sin_theta = sin theta;
          rotation = mat4_set rotation 0 0 cos_theta;
          rotation = mat4_set rotation 2 0 (- sin_theta);
          rotation = mat4_set rotation 0 2 sin_theta;
          rotation = mat4_set rotation 2 2 cos_theta
      in rotation)"

definition translation_matrix :: mat4 where
  "translation_matrix = mat4_set (mat4_diag 1) 3 2 (- 0.5)"

text \<open>The transform of instance \<open>i\<close> of \<open>n\<close> (\<^verbatim>\<open>instances.size()\<close>).\<close>

definition instance_model :: "nat \<Rightarrow> nat \<Rightarrow> mat4" where
  "instance_model n i =
     (let scale = scale_matrix;
          theta = pi * 2 * real i / real n;
          rotation = rotation_matrix theta;
          translation = translation_matrix;
          displacement = mat4_mul rotation translation
      in mat4_mul scale displacement)"

definition make_instance :: "(nat \<Rightarrow> int) \<Rightarrow> nat \<Rightarrow> nat \<Rightarrow> nat \<Rightarrow> Instance \<times> nat" where
  "make_instance draws n i pos =
     (let (c, pos') = instance_color draws pos
      in (\<lparr>Model = instance_model n i, Color = c\<rparr>, pos'))"

text \<open>The loop over \<open>i\<close>, filling the array in order.\<close>

fun fill_instances :: "(nat \<Rightarrow> int) \<Rightarrow> nat \<Rightarrow> nat list \<Rightarrow> nat \<Rightarrow> Instance list" where
  "fill_instances draws n [] pos = []"
| "fill_instances draws n (i # is) pos =
     (let (inst, pos') = make_instance draws n i pos
      in inst # fill_instances draws n is pos')"

definition make_instances :: "(nat \<Rightarrow> int) \<Rightarrow> nat \<Rightarrow> Instance list" where
  "make_instances draws n = fill_instances draws n [0..<n] 0"

text \<open>\<^verbatim>\<open>std::array<Instance, 6> instances\<close>.\<close>

definition instances :: "(nat \<Rightarrow> int) \<Rightarrow> Instance list" where
  "instances draws = make_instances draws 6"

section \<open>Camera and frame loop\<close>

text \<open>
  The camera lines of the loop body, in their order: the cosine and sine of the angle, the
  elevation and its cosine and sine, then the advance of the angle, then distance and eye.
  The result is the new angle and the eye.
\<close>

definition camera :: "real \<Rightarrow> real \<Rightarrow> real \<times> vec3" where
  "camera theta dt =
     (let cosTheta = cos theta;
          sinTheta = sin theta;
          phi = cosTheta * pi / 4;
          cosPhi = cos phi;
          sinPhi = sin phi;
          theta' = theta + dt * 0.1;
          cameraDistance = \<bar>cosTheta\<bar> * 5;
          eye = Vec3 (cosTheta * cosPhi * cameraDistance) (sinPhi * cameraDistance)
                  (sinTheta * cosPhi * cameraDistance)
      in (theta', eye))"

definition center :: vec3 where
  "center = Vec3 0 0 0"

definition up :: vec3 where
  "up = Vec3 0 1 0"

text \<open>
  \<^verbatim>\<open>glm::perspective\<close> and \<^verbatim>\<open>glm::lookAt\<close> belong to the linear-algebra library and are
  parameters. The aspect ratio is a quotient of floats; with height 0 it is an infinity or
  a NaN, no real number, written \<open>None\<close>.
\<close>

record glm =
  perspective :: "real \<Rightarrow> real option \<Rightarrow> real \<Rightarrow> real \<Rightarrow> mat4"
  lookAt :: "vec3 \<Rightarrow> vec3 \<Rightarrow> vec3 \<Rightarrow> mat4"

definition radians :: "real \<Rightarrow> real" where
  "radians d = d * pi / 180"

definition aspect_ratio :: "u32 \<Rightarrow> u32 \<Rightarrow> real option" where
  "aspect_ratio w h = (if h = 0 then None else Some (real (unat w) / real (unat h)))"

definition clearValues :: "image_pixel list" where
  "clearValues = [color 0x787878FF, depth 1]"

text \<open>
  What one iteration of the loop sees: the answer of \<^verbatim>\<open>IsCloseRequested\<close> at the loop head,
  the window after \<^verbatim>\<open>Poll\<close>, and the time since the previous iteration in seconds.
\<close>

record frame_input =
  close_requested :: bool
  polled :: window
  delta :: real

definition the_call :: "state \<Rightarrow> indexed_render_call" where
  "the_call s = \<lparr>call_framebuffer = fb s, call_uniform_data = uniforms s,
                 index_count = 3, instance_count = 6\<rparr>"

text \<open>
  The loop body from \<^verbatim>\<open>GetFramebufferSize\<close> to \<^verbatim>\<open>SwapBuffers\<close>. What \<^verbatim>\<open>Window::Poll\<close> does is
  the input of the iteration; the overlay's \<^verbatim>\<open>NewFrame\<close> and \<^verbatim>\<open>Render\<close> before it touch nothing
  of this state. The attachment vector has two entries in every state the loop reaches, so
  the indices 0 and 1 are in range.
\<close>

definition frame :: "glm \<Rightarrow> frame_input \<Rightarrow> state \<Rightarrow> (error + unit) \<times> state" where
  "frame g inp s =
     (let w = polled inp;
          (width, height) = GetFramebufferSize w;
          s = s\<lparr>fb := (fb s)\<lparr>fb_width := width, fb_height := height\<rparr>\<rparr>;
          aspect = aspect_ratio (fb_width (fb s)) (fb_height (fb s));
          s = s\<lparr>fb := (fb s)\<lparr>attachments := (attachments (fb s))[0 := GetBackbuffer w]\<rparr>\<rparr>;
          (buffer, s) = ValidateDepthBuffer w (attachments (fb s) ! 1) s;
          s = s\<lparr>fb := (fb s)\<lparr>attachments := (attachments (fb s))[1 := buffer]\<rparr>\<rparr>;
          (theta', eye) = camera (cameraTheta s) (delta inp);
          s = s\<lparr>cameraTheta := theta'\<rparr>;
          s = s\<lparr>uniforms := \<lparr>Projection = perspective g (radians 45) aspect 0.1 100,
                              View = lookAt g eye center up\<rparr>\<rparr>
      in case ClearFramebuffer (fb s) clearValues s of
           (Inl e, s) \<Rightarrow> (Inl e, s)
         | (Inr _, s) \<Rightarrow>
             (let s = RenderIndexed (the_call s) s;
                  s = ImGuiRenderer_Render (fb s) s;
                  s = SwapBuffers s
              in (Inr (), s)))"

text \<open>
  \<^verbatim>\<open>while (!window->IsCloseRequested())\<close>, over the iterations the environment supplies. An
  exception leaves the loop (and \<^verbatim>\<open>main\<close>) at once.
\<close>

fun main_loop :: "glm \<Rightarrow> frame_input list \<Rightarrow> state \<Rightarrow> (error + unit) \<times> state" where
  "main_loop g [] s = (Inr (), s)"
| "main_loop g (inp # inps) s =
     (if close_requested inp then (Inr (), s)
      else case frame g inp s of
             (Inl e, s') \<Rightarrow> (Inl e, s')
           | (Inr _, s') \<Rightarrow> main_loop g inps s')"

text \<open>
  The state before the loop. The framebuffer's size and the uniform block are not
  initialised by \<^verbatim>\<open>main\<close>: they are whatever \<open>junk\<close> holds.
\<close>

definition init_state :: "state \<Rightarrow> state" where
  "init_state junk =
     junk\<lparr>fb := (fb junk)\<lparr>attachment_count := 2, attachments := [None, None]\<rparr>,
          cameraTheta := 0, events := [], next_image := 0\<rparr>"

definition main :: "glm \<Rightarrow> state \<Rightarrow> frame_input list \<Rightarrow> (error + int) \<times> state" where
  "main g junk inps =
     (case main_loop g inps (init_state junk) of
        (Inl e, s) \<Rightarrow> (Inl e, s)
      | (Inr _, s) \<Rightarrow> (Inr 0, image_free (attachments (fb s) ! 1) s))"

section \<open>Predicates used in the properties\<close>

text \<open>The attachment vector of \<^verbatim>\<open>main\<close>: two entries, and the count field says so.\<close>

definition two_attachments :: "state \<Rightarrow> bool" where
  "two_attachments s \<longleftrightarrow> attachment_count (fb s) = 2 \<and> length (attachments (fb s)) = 2"




text \<open>The indexed draw calls among the recorded calls, in order.\<close>

fun draw_calls :: "event list \<Rightarrow> indexed_render_call list" where
  "draw_calls [] = []"
| "draw_calls (RenderIndexedCall c # es) = c # draw_calls es"
| "draw_calls (_ # es) = draw_calls es"

text \<open>
  The camera as claim C3 words it, for comparison with \<open>camera\<close>: the angle is advanced
  first, and cosine, sine, elevation, distance and eye are taken from the advanced angle.
\<close>

definition camera_advance_first :: "real \<Rightarrow> real \<Rightarrow> real \<times> vec3" where
  "camera_advance_first theta dt =
     (let theta' = theta + dt * 0.1;
          cosTheta = cos theta';
          sinTheta = sin theta';
          phi = cosTheta * (pi / 4);
          cameraDistance = \<bar>cosTheta\<bar> * 5;
          eye = Vec3 (cosTheta * cos phi * cameraDistance) (sin phi * cameraDistance)
                  (sinTheta * cos phi * cameraDistance)
      in (theta', eye))"

text \<open>
  The transforms the specification names, as matrices (columns first). The rotation about
  the Y axis by \<open>t\<close> is the one of the comment in the source: it takes \<open>(x, y, z)\<close> to
  \<open>(x cos t - z sin t, y, x sin t + z cos t)\<close>.
\<close>

definition scaling :: "real \<Rightarrow> mat4" where
  "scaling a = Mat4 (Vec4 a 0 0 0) (Vec4 0 a 0 0) (Vec4 0 0 a 0) (Vec4 0 0 0 1)"

definition rotation_about_y :: "real \<Rightarrow> mat4" where
  "rotation_about_y t =
     Mat4 (Vec4 (cos t) 0 (sin t) 0) (Vec4 0 1 0 0) (Vec4 (- sin t) 0 (cos t) 0) (Vec4 0 0 0 1)"

fun translation :: "vec3 \<Rightarrow> mat4" where
  "translation (Vec3 x y z) =
     Mat4 (Vec4 1 0 0 0) (Vec4 0 1 0 0) (Vec4 0 0 1 0) (Vec4 x y z 1)"

section \<open>Concrete inputs\<close>

text \<open>
  A state for \<open>junk\<close> with nothing in it, a stand-in for the linear-algebra library whose
  \<open>lookAt\<close> keeps its three arguments, and an iteration in which the window is open, has
  the given size and a backbuffer of that size. They are used where a theorem is run on an
  example.
\<close>

definition blank_state :: state where
  "blank_state =
     \<lparr>fb = \<lparr>fb_width = 0, fb_height = 0, attachment_count = 0, attachments = []\<rparr>,
      cameraTheta = 0, uniforms = \<lparr>Projection = mat4_diag 0, View = mat4_diag 0\<rparr>,
      events = [], next_image = 0\<rparr>"

text \<open>A state whose framebuffer has three attachments, one more than the clear values.\<close>

definition three_attachments :: state where
  "three_attachments =
     blank_state\<lparr>fb := \<lparr>fb_width = 0, fb_height = 0, attachment_count = 3,
                          attachments = [None, None, None]\<rparr>\<rparr>"


definition demo_glm :: glm where
  "demo_glm =
     \<lparr>perspective = (\<lambda>fovy aspect near far. mat4_diag 1),
      lookAt = (\<lambda>eye c u. Mat4 (vec4_of_vec3 eye 0) (vec4_of_vec3 c 0) (vec4_of_vec3 u 0)
                  (Vec4 0 0 0 1))\<rparr>"

definition demo_frame :: "u32 \<Rightarrow> u32 \<Rightarrow> real \<Rightarrow> frame_input" where
  "demo_frame w h dt =
     \<lparr>close_requested = False,
      polled = \<lparr>framebuffer_size = (w, h),
                backbuffer = Some \<lparr>image_id = 1000, image_width = w, image_height = h,
                                    image_format = IMAGE_FORMAT_COLOR\<rparr>\<rparr>,
      delta = dt\<rparr>"

section \<open>Auxiliary facts\<close>

lemma map_all_equal: "\<forall>x \<in> set xs. f x = v \<Longrightarrow> map f xs = replicate (length xs) v"
  by (induction xs) auto


subsection \<open>Matrices\<close>

lemma mat4_mul_vec_assoc:
  "mat4_mul_vec (mat4_mul a b) v = mat4_mul_vec a (mat4_mul_vec b v)"
proof -
  obtain a0 a1 a2 a3 where a: "a = Mat4 a0 a1 a2 a3" by (cases a)
  obtain b0 b1 b2 b3 where b: "b = Mat4 b0 b1 b2 b3" by (cases b)
  show ?thesis
    unfolding a b
    by (cases v; cases a0; cases a1; cases a2; cases a3; cases b0; cases b1; cases b2; cases b3)
       (simp add: algebra_simps)
qed

lemma upt_3: "[0..<3] = [0, 1, 2]"
  by (simp add: upt_rec)

lemma scale_matrix_eq: "scale_matrix = scaling (1 / 4)"
  by (simp add: scale_matrix_def upt_3 mat4_set_def mat4_get_def mat4_diag_def scaling_def)

lemma rotation_matrix_eq: "rotation_matrix t = rotation_about_y t"
  by (simp add: rotation_matrix_def Let_def mat4_set_def mat4_diag_def rotation_about_y_def)

lemma translation_matrix_eq: "translation_matrix = translation (Vec3 0 0 (- 1 / 2))"
  by (simp add: translation_matrix_def mat4_set_def mat4_diag_def)

subsection \<open>Colour channels\<close>

lemma bit_255_word: "bit (255 :: 32 word) k \<longleftrightarrow> k < 8"
  using bit_mask_iff [where ?'a = "32 word", of 8 k] by (auto simp add: mask_eq_exp_minus_1)

lemma bit_255_int: "bit (255 :: int) k \<longleftrightarrow> k < 8"
  using bit_mask_iff [where ?'a = int, of 8 k] by (auto simp add: mask_eq_exp_minus_1)

lemma add_channel_low: "fst (add_channel draws j (c, pos)) AND 0xFF = c AND 0xFF"
  by (rule bit_word_eqI)
     (auto simp add: add_channel_def rand_def Let_def bit_simps bit_255_word bit_255_int)

lemma fold_add_channel_low:
  "fst (fold (add_channel draws) js (c, pos)) AND 0xFF = c AND 0xFF"
proof (induction js arbitrary: c pos)
  case Nil
  then show ?case by simp
next
  case (Cons j js)
  obtain c' pos' where step: "add_channel draws j (c, pos) = (c', pos')"
    by (cases "add_channel draws j (c, pos)")
  with add_channel_low [of draws j c pos] have "c' AND 0xFF = c AND 0xFF" by simp
  with Cons.IH [of c' pos'] step show ?case by simp
qed

lemma instance_color_low: "fst (instance_color draws pos) AND 0xFF = 0xFF"
  using fold_add_channel_low [of draws "[0..<3]" "0xFF" pos]
  by (simp add: instance_color_def)

lemma fill_instances_length: "length (fill_instances draws n js pos) = length js"
  by (induction js arbitrary: pos) (simp_all add: split_def Let_def)

lemma fill_instances_low:
  "inst \<in> set (fill_instances draws n js pos) \<Longrightarrow> Color inst AND 0xFF = 0xFF"
proof (induction js arbitrary: pos)
  case Nil
  then show ?case by simp
next
  case (Cons j js)
  then show ?case
    using instance_color_low [of draws pos]
    by (auto simp add: split_def Let_def make_instance_def)
qed

lemma fill_instances_model:
  "i < length js \<Longrightarrow>
   Model (fill_instances draws n js pos ! i) = instance_model n (js ! i)"
proof (induction js arbitrary: i pos)
  case Nil
  then show ?case by simp
next
  case (Cons j js)
  show ?case
  proof (cases i)
    case 0
    then show ?thesis by (simp add: split_def Let_def make_instance_def)
  next
    case (Suc k)
    with Cons.prems have "k < length js" by simp
    from Cons.IH [OF this] Suc show ?thesis by (simp add: split_def Let_def)
  qed
qed

lemma make_instances_model:
  "i < n \<Longrightarrow> Model (make_instances draws n ! i) = instance_model n i"
  by (simp add: make_instances_def fill_instances_model)

subsection \<open>Depth buffer validation and the frame\<close>

lemma validate_cases:
  "ValidateDepthBuffer w buffer s =
     (if IsDepthBufferValid buffer (fst (framebuffer_size w)) (snd (framebuffer_size w))
      then (buffer, s)
      else (Some \<lparr>image_id = next_image s, image_width = fst (framebuffer_size w),
                   image_height = snd (framebuffer_size w), image_format = IMAGE_FORMAT_DEPTH\<rparr>,
            s\<lparr>events := events s @ [ImageFree buffer,
                 ImageAllocate (fst (framebuffer_size w)) (snd (framebuffer_size w))
                   IMAGE_FORMAT_DEPTH],
              next_image := Suc (next_image s)\<rparr>))"
  by (simp add: ValidateDepthBuffer_def GetFramebufferSize_def image_allocate_def image_free_def
      emit_def split: prod.splits)

lemma draw_calls_append: "draw_calls (xs @ ys) = draw_calls xs @ draw_calls ys"
  by (induction xs rule: draw_calls.induct) simp_all

lemmas frame_defs = frame_def validate_cases ClearFramebuffer_def
      framebuffer_clear_def RenderIndexed_def render_indexed_def ImGuiRenderer_Render_def
      imgui_render_def SwapBuffers_def emit_def clearValues_def GetFramebufferSize_def
      GetBackbuffer_def Let_def

lemma frame_two:
  assumes "two_attachments s"
  shows "fst (frame g inp s) = Inr ()" "two_attachments (snd (frame g inp s))"
  using assms
  by (auto simp add: frame_defs two_attachments_def split: prod.splits)

lemma frame_theta:
  "cameraTheta (snd (frame g inp s)) = cameraTheta s + delta inp * 0.1"
  by (auto simp add: frame_defs camera_def split: prod.splits)

lemma frame_uniforms:
  "uniforms (snd (frame g inp s)) =
     \<lparr>Projection = perspective g (radians 45)
        (aspect_ratio (fst (framebuffer_size (polled inp))) (snd (framebuffer_size (polled inp))))
        0.1 100,
      View = lookAt g (snd (camera (cameraTheta s) (delta inp))) center up\<rparr>"
  by (auto simp add: frame_defs split: prod.splits)

lemma frame_events:
  assumes "two_attachments s"
  shows "events (snd (frame g inp s)) =
     events s @
     (if IsDepthBufferValid (attachments (fb s) ! 1) (fst (framebuffer_size (polled inp)))
           (snd (framebuffer_size (polled inp)))
      then []
      else [ImageFree (attachments (fb s) ! 1),
            ImageAllocate (fst (framebuffer_size (polled inp)))
              (snd (framebuffer_size (polled inp))) IMAGE_FORMAT_DEPTH]) @
     [FramebufferClear (fb (snd (frame g inp s))) clearValues,
      RenderIndexedCall (the_call (snd (frame g inp s))),
      ImguiRender (fb (snd (frame g inp s))),
      WindowSwapBuffers]"
proof -
  from assms obtain x y where "attachments (fb s) = [x, y]"
    by (auto simp add: two_attachments_def length_Suc_conv numeral_2_eq_2)
  with assms show ?thesis
    by (auto simp add: frame_defs two_attachments_def the_call_def split: prod.splits)
qed





lemma frame_draw_calls:
  "two_attachments s \<Longrightarrow>
   draw_calls (events (snd (frame g inp s))) = draw_calls (events s) @ [the_call (snd (frame g inp s))]"
  by (simp add: frame_events draw_calls_append)

lemma frame_throws:
  assumes "length clearValues \<noteq> unat (attachment_count (fb s))"
  shows "fst (frame g inp s) = Inl (runtime_error ''Attachment size mismatch!'')"
    and "events (snd (frame g inp s)) = events s @
      (if IsDepthBufferValid (attachments (fb s) ! 1) (fst (framebuffer_size (polled inp)))
            (snd (framebuffer_size (polled inp)))
       then []
       else [ImageFree (attachments (fb s) ! 1),
             ImageAllocate (fst (framebuffer_size (polled inp)))
               (snd (framebuffer_size (polled inp))) IMAGE_FORMAT_DEPTH])"
  using assms
  by (auto simp add: frame_def validate_cases ClearFramebuffer_def GetFramebufferSize_def
      Let_def split: prod.splits)

lemma main_loop_throws:
  assumes "length clearValues \<noteq> unat (attachment_count (fb s))" and "\<not> close_requested inp"
  shows "main_loop g (inp # inps) s =
    (Inl (runtime_error ''Attachment size mismatch!''), snd (frame g inp s))"
  using frame_throws(1) [OF assms(1), of g inp] assms(2)
  by (cases "frame g inp s") (auto split: sum.splits)


lemma main_loop_step:
  "two_attachments s \<Longrightarrow> \<not> close_requested inp \<Longrightarrow>
   main_loop g (inp # inps) s = main_loop g inps (snd (frame g inp s))"
  using frame_two(1) [of s g inp]
  by (cases "frame g inp s") (auto split: sum.splits)

lemma main_loop_stop:
  "close_requested inp \<Longrightarrow> main_loop g (inp # inps) s = (Inr (), s)"
  by simp

lemma main_loop_invariant:
  assumes "two_attachments s" and "I s"
    and "\<And>s inp. two_attachments s \<Longrightarrow> I s \<Longrightarrow> inp \<in> set inps \<Longrightarrow>
           \<not> close_requested inp \<Longrightarrow> I (snd (frame g inp s))"
  shows "I (snd (main_loop g inps s))"
  using assms
proof (induction inps arbitrary: s)
  case Nil
  then show ?case by simp
next
  case (Cons inp inps)
  show ?case
  proof (cases "close_requested inp")
    case True
    with Cons.prems show ?thesis by simp
  next
    case False
    let ?s' = "snd (frame g inp s)"
    have two: "two_attachments ?s'" using Cons.prems(1) by (rule frame_two)
    have "I ?s'" using Cons.prems False by simp
    from Cons.IH [OF two this] Cons.prems(3) show ?thesis
      unfolding main_loop_step [OF Cons.prems(1) False] by simp
  qed
qed

lemma init_two: "two_attachments (init_state junk)"
  by (simp add: two_attachments_def init_state_def)

lemma init_events: "events (init_state junk) = []"
  by (simp add: init_state_def)





lemma main_loop_draw_count:
  "two_attachments s \<Longrightarrow>
   length (draw_calls (events (snd (main_loop g inps s)))) =
     length (draw_calls (events s)) + length (takeWhile (\<lambda>i. \<not> close_requested i) inps)"
proof (induction inps arbitrary: s)
  case Nil
  then show ?case by simp
next
  case (Cons inp inps)
  show ?case
  proof (cases "close_requested inp")
    case True
    then show ?thesis by simp
  next
    case False
    have two: "two_attachments (snd (frame g inp s))" using Cons.prems by (rule frame_two)
    show ?thesis
      unfolding main_loop_step [OF Cons.prems False]
      using False by (simp add: Cons.IH [OF two] frame_draw_calls [OF Cons.prems])
  qed
qed

subsection \<open>Camera\<close>

lemma camera_eq:
  "camera theta dt =
     (theta + dt * 0.1,
      Vec3 (cos theta * cos (cos theta * (pi / 4)) * (\<bar>cos theta\<bar> * 5))
           (sin (cos theta * (pi / 4)) * (\<bar>cos theta\<bar> * 5))
           (sin theta * cos (cos theta * (pi / 4)) * (\<bar>cos theta\<bar> * 5)))"
  by (simp add: camera_def Let_def)

lemma main_loop_theta:
  "two_attachments s \<Longrightarrow>
   cameraTheta (snd (main_loop g inps s)) =
     cameraTheta s + 0.1 * sum_list (map delta (takeWhile (\<lambda>i. \<not> close_requested i) inps))"
proof (induction inps arbitrary: s)
  case Nil
  then show ?case by simp
next
  case (Cons inp inps)
  show ?case
  proof (cases "close_requested inp")
    case True
    then show ?thesis by simp
  next
    case False
    have two: "two_attachments (snd (frame g inp s))" using Cons.prems by (rule frame_two)
    show ?thesis
      unfolding main_loop_step [OF Cons.prems False]
      using False by (simp add: Cons.IH [OF two] frame_theta algebra_simps)
  qed
qed

lemma camera_rest: "snd (camera 0 0) = Vec3 (5 * sqrt 2 / 2) (5 * sqrt 2 / 2) 0"
  by (simp add: camera_def Let_def cos_45 sin_45)

lemma still_invariant:
  assumes "\<forall>i \<in> set inps. delta i = 0"
  shows "cameraTheta (snd (main_loop g inps (init_state junk))) = 0 \<and>
    (\<forall>c \<in> set (draw_calls (events (snd (main_loop g inps (init_state junk))))).
       View (call_uniform_data c) = lookAt g (Vec3 (5 * sqrt 2 / 2) (5 * sqrt 2 / 2) 0) center up)"
proof (rule main_loop_invariant [OF init_two])
  show "cameraTheta (init_state junk) = 0 \<and>
    (\<forall>c \<in> set (draw_calls (events (init_state junk))).
       View (call_uniform_data c) = lookAt g (Vec3 (5 * sqrt 2 / 2) (5 * sqrt 2 / 2) 0) center up)"
    by (simp add: init_state_def)
next
  fix s inp
  assume "two_attachments s"
    and "cameraTheta s = 0 \<and>
      (\<forall>c \<in> set (draw_calls (events s)).
         View (call_uniform_data c) = lookAt g (Vec3 (5 * sqrt 2 / 2) (5 * sqrt 2 / 2) 0) center up)"
    and "inp \<in> set inps"
  with assms show "cameraTheta (snd (frame g inp s)) = 0 \<and>
      (\<forall>c \<in> set (draw_calls (events (snd (frame g inp s)))).
         View (call_uniform_data c) = lookAt g (Vec3 (5 * sqrt 2 / 2) (5 * sqrt 2 / 2) 0) center up)"
    by (auto simp add: frame_draw_calls the_call_def frame_theta frame_uniforms camera_rest)
qed

section \<open>Properties\<close>

text \<open>
  C1. For a framebuffer whose attachment count is N, \<^verbatim>\<open>ClearFramebuffer\<close> with exactly N clear
  values returns normally and forwards the clear (framebuffer and clear values) to the
  rasterizer as the next call; with any other number of clear values it ends in the
  runtime error "Attachment size mismatch!" and makes no call. Nothing is tried again and
  nothing recovers: when the two clear values of the frame loop meet another attachment
  count, the loop ends in that frame with the error, the frame has made no call but those
  of the depth buffer validation, and no later frame is run.
\<close>

theorem ClearFramebuffer_count:
  "(length cv = unat (attachment_count f) \<longrightarrow>
      ClearFramebuffer f cv s =
        (Inr (), s\<lparr>events := events s @ [FramebufferClear f cv]\<rparr>)) \<and>
   (length cv \<noteq> unat (attachment_count f) \<longrightarrow>
      fst (ClearFramebuffer f cv s) = Inl (runtime_error ''Attachment size mismatch!'') \<and>
      events (snd (ClearFramebuffer f cv s)) = events s) \<and>
   (length clearValues \<noteq> unat (attachment_count (fb s)) \<and> \<not> close_requested inp \<longrightarrow>
      fst (main_loop g (inp # inps) s) = Inl (runtime_error ''Attachment size mismatch!'') \<and>
      events (snd (main_loop g (inp # inps) s)) = events s @
        (if IsDepthBufferValid (attachments (fb s) ! 1) (fst (framebuffer_size (polled inp)))
              (snd (framebuffer_size (polled inp)))
         then []
         else [ImageFree (attachments (fb s) ! 1),
               ImageAllocate (fst (framebuffer_size (polled inp)))
                 (snd (framebuffer_size (polled inp))) IMAGE_FORMAT_DEPTH]))"
proof (intro conjI impI)
  assume "length clearValues \<noteq> unat (attachment_count (fb s)) \<and> \<not> close_requested inp"
  then have mismatch: "length clearValues \<noteq> unat (attachment_count (fb s))"
    and running: "\<not> close_requested inp"
    by blast+
  have loop: "main_loop g (inp # inps) s =
      (Inl (runtime_error ''Attachment size mismatch!''), snd (frame g inp s))"
    and ev: "events (snd (frame g inp s)) = events s @
      (if IsDepthBufferValid (attachments (fb s) ! 1) (fst (framebuffer_size (polled inp)))
            (snd (framebuffer_size (polled inp)))
       then []
       else [ImageFree (attachments (fb s) ! 1),
             ImageAllocate (fst (framebuffer_size (polled inp)))
               (snd (framebuffer_size (polled inp))) IMAGE_FORMAT_DEPTH])"
    using main_loop_throws [OF mismatch running] frame_throws(2) [OF mismatch] by blast+
  show "fst (main_loop g (inp # inps) s) = Inl (runtime_error ''Attachment size mismatch!'')"
    unfolding loop by simp
  show "events (snd (main_loop g (inp # inps) s)) = events s @
      (if IsDepthBufferValid (attachments (fb s) ! 1) (fst (framebuffer_size (polled inp)))
            (snd (framebuffer_size (polled inp)))
       then []
       else [ImageFree (attachments (fb s) ! 1),
             ImageAllocate (fst (framebuffer_size (polled inp)))
               (snd (framebuffer_size (polled inp))) IMAGE_FORMAT_DEPTH])"
    unfolding loop using ev by simp
qed (simp_all add: ClearFramebuffer_def framebuffer_clear_def emit_def)

theorem ClearFramebuffer_count_witness:
  "length clearValues = unat (attachment_count (fb (init_state blank_state))) \<and>
   ClearFramebuffer (fb (init_state blank_state)) clearValues (init_state blank_state) =
     (Inr (), (init_state blank_state)\<lparr>events :=
        [FramebufferClear (fb (init_state blank_state)) clearValues]\<rparr>) \<and>
   length [color 0x787878FF] \<noteq> unat (attachment_count (fb (init_state blank_state))) \<and>
   fst (ClearFramebuffer (fb (init_state blank_state)) [color 0x787878FF]
     (init_state blank_state)) = Inl (runtime_error ''Attachment size mismatch!'') \<and>
   events (snd (ClearFramebuffer (fb (init_state blank_state)) [color 0x787878FF]
     (init_state blank_state))) = [] \<and>
   length clearValues \<noteq> unat (attachment_count (fb three_attachments)) \<and>
   \<not> close_requested (demo_frame 1600 900 0) \<and>
   fst (main_loop demo_glm [demo_frame 1600 900 0, demo_frame 1600 900 0] three_attachments) =
     Inl (runtime_error ''Attachment size mismatch!'') \<and>
   events (snd (main_loop demo_glm [demo_frame 1600 900 0, demo_frame 1600 900 0]
     three_attachments)) = [ImageFree None, ImageAllocate 1600 900 IMAGE_FORMAT_DEPTH]"
proof -
  have a: "length clearValues = unat (attachment_count (fb (init_state blank_state)))"
    and b: "length [color 0x787878FF] \<noteq> unat (attachment_count (fb (init_state blank_state)))"
    and c: "length clearValues \<noteq> unat (attachment_count (fb three_attachments))"
    and d: "\<not> close_requested (demo_frame 1600 900 0)"
    by (simp_all add: clearValues_def init_state_def blank_state_def three_attachments_def
        demo_frame_def)
  note ok = ClearFramebuffer_count [of "clearValues" "fb (init_state blank_state)"
      "init_state blank_state", THEN conjunct1, THEN mp, OF a]
  note bad = ClearFramebuffer_count [of "[color 0x787878FF]" "fb (init_state blank_state)"
      "init_state blank_state", THEN conjunct2, THEN conjunct1, THEN mp, OF b]
  note fatal = ClearFramebuffer_count [of _ _ three_attachments "demo_frame 1600 900 0"
      demo_glm "[demo_frame 1600 900 0]",
      THEN conjunct2, THEN conjunct2, THEN mp, OF conjI [OF c d]]
  have e: "events (init_state blank_state) = []"
    by (simp add: init_state_def)
  have f: "events three_attachments @
      (if IsDepthBufferValid (attachments (fb three_attachments) ! 1)
            (fst (framebuffer_size (polled (demo_frame 1600 900 0))))
            (snd (framebuffer_size (polled (demo_frame 1600 900 0))))
       then []
       else [ImageFree (attachments (fb three_attachments) ! 1),
             ImageAllocate (fst (framebuffer_size (polled (demo_frame 1600 900 0))))
               (snd (framebuffer_size (polled (demo_frame 1600 900 0)))) IMAGE_FORMAT_DEPTH]) =
      [ImageFree None, ImageAllocate 1600 900 IMAGE_FORMAT_DEPTH]"
    by (simp add: three_attachments_def blank_state_def demo_frame_def IsDepthBufferValid_def)
  show ?thesis
    using a ok [unfolded e append_Nil] b bad [THEN conjunct1] bad [THEN conjunct2, unfolded e] c d
      fatal [THEN conjunct1] fatal [THEN conjunct2, unfolded f]
    by (intro conjI)
qed




text \<open>
  C3 (as amended). Each frame the camera controller takes the cosine and sine of the orbit
  angle, the elevation cos \<theta> \<times> (\<pi>/4), the distance |cos \<theta>| \<times> 5 and the eye from the angle
  \<theta> as it stands at the start of the frame; the angle is advanced by delta \<times> 0.1 in the same
  frame, after cosine, sine and elevation are taken, so the advance shows in the next
  frame's eye. The view looks from that eye at the origin with up = +Y.
\<close>

theorem camera_uses_angle_before_advance:
  "camera theta dt =
     (theta + dt * 0.1,
      Vec3 (cos theta * cos (cos theta * (pi / 4)) * (\<bar>cos theta\<bar> * 5))
           (sin (cos theta * (pi / 4)) * (\<bar>cos theta\<bar> * 5))
           (sin theta * cos (cos theta * (pi / 4)) * (\<bar>cos theta\<bar> * 5))) \<and>
   cameraTheta (snd (frame g inp s)) = cameraTheta s + delta inp * 0.1 \<and>
   View (uniforms (snd (frame g inp s))) =
     lookAt g (snd (camera (cameraTheta s) (delta inp))) (Vec3 0 0 0) (Vec3 0 1 0)"
  by (simp add: camera_eq frame_theta frame_uniforms center_def up_def)

text \<open>
  The claim as stated (advance first, then derive from the advanced angle) fails: from
  angle 0 with one second elapsed, the eye of the code lies in the plane z = 0, the eye
  derived from the advanced angle 0.1 does not.
\<close>

theorem camera_advance_first_counterexample:
  "snd (camera 0 1) \<noteq> snd (camera_advance_first 0 1)"
proof -
  have pi3: "(2::real) \<le> pi" by (rule pi_ge_two)
  have c: "0 < cos (1 / 10 :: real)"
    by (rule cos_gt_zero_pi) (use pi3 in auto)
  have s: "0 < sin (1 / 10 :: real)"
    by (rule sin_gt_zero) (use pi3 in auto)
  have c1: "cos (1 / 10 :: real) \<le> 1" by (rule cos_le_one)
  have pos: "0 < cos (1 / 10 :: real) * (pi / 4)" using c by simp
  have "cos (1 / 10 :: real) * (pi / 4) \<le> 1 * (pi / 4)"
    using c1 by (rule mult_right_mono) simp
  then have hi: "cos (1 / 10 :: real) * (pi / 4) < pi / 2"
    using pi_gt_zero by linarith
  have lo: "- (pi / 2) < cos (1 / 10 :: real) * (pi / 4)"
    using pos pi_gt_zero by linarith
  have cp: "0 < cos (cos (1 / 10 :: real) * (pi / 4))"
    using lo hi by (rule cos_gt_zero_pi)
  show ?thesis
    using s cp c by (simp add: camera_eq camera_advance_first_def Let_def)
qed

text \<open>
  C4. For every sequence of frames run from the start of \<^verbatim>\<open>main\<close> (over the reals): the
  orbit angle at the end is 0.1 times the sum of the time deltas of the frames run (the
  frames before the first close request; all of them when none is requested), so deltas
  summing to T give the angle 0.1 \<times> T. If every delta is 0, the angle is 0 after any number
  of frames and every draw call is issued with the same view, from the eye
  (5\<surd>2/2, 5\<surd>2/2, 0) towards the origin with up = +Y.
\<close>

theorem camera_angle_is_tenth_of_time:
  "cameraTheta (snd (main_loop g inps (init_state junk))) =
     0.1 * sum_list (map delta (takeWhile (\<lambda>i. \<not> close_requested i) inps)) \<and>
   ((\<forall>i \<in> set inps. \<not> close_requested i) \<longrightarrow>
      cameraTheta (snd (main_loop g inps (init_state junk))) = 0.1 * sum_list (map delta inps)) \<and>
   ((\<forall>i \<in> set inps. delta i = 0) \<longrightarrow>
      (\<forall>k. cameraTheta (snd (main_loop g (take k inps) (init_state junk))) = 0) \<and>
      (\<forall>c \<in> set (draw_calls (events (snd (main_loop g inps (init_state junk))))).
         View (call_uniform_data c) =
           lookAt g (Vec3 (5 * sqrt 2 / 2) (5 * sqrt 2 / 2) 0) (Vec3 0 0 0) (Vec3 0 1 0)))"
proof (intro conjI impI allI)
  show a: "cameraTheta (snd (main_loop g inps (init_state junk))) =
     0.1 * sum_list (map delta (takeWhile (\<lambda>i. \<not> close_requested i) inps))"
    using main_loop_theta [OF init_two, of g inps junk] by (simp add: init_state_def)
  show "cameraTheta (snd (main_loop g inps (init_state junk))) = 0.1 * sum_list (map delta inps)"
    if "\<forall>i \<in> set inps. \<not> close_requested i"
  proof -
    from that have "takeWhile (\<lambda>i. \<not> close_requested i) inps = inps"
      by (simp add: takeWhile_eq_all_conv)
    with a show ?thesis by simp
  qed
  show "cameraTheta (snd (main_loop g (take k inps) (init_state junk))) = 0"
    if "\<forall>i \<in> set inps. delta i = 0" for k
  proof -
    from that have "\<forall>i \<in> set (take k inps). delta i = 0"
      by (auto dest: in_set_takeD)
    then show ?thesis using still_invariant [of "take k inps" g junk] by simp
  qed
  show "\<forall>c \<in> set (draw_calls (events (snd (main_loop g inps (init_state junk))))).
         View (call_uniform_data c) =
           lookAt g (Vec3 (5 * sqrt 2 / 2) (5 * sqrt 2 / 2) 0) (Vec3 0 0 0) (Vec3 0 1 0)"
    if "\<forall>i \<in> set inps. delta i = 0"
    using still_invariant [OF that, of g junk] by (simp add: center_def up_def)
qed

theorem camera_angle_is_tenth_of_time_witness:
  "\<not> close_requested (demo_frame 1600 900 (1 / 2)) \<and>
   \<not> close_requested (demo_frame 800 600 (1 / 4)) \<and>
   cameraTheta (snd (main_loop demo_glm [demo_frame 1600 900 (1 / 2), demo_frame 800 600 (1 / 4)]
     (init_state blank_state))) = 3 / 40 \<and>
   delta (demo_frame 1600 900 0) = 0 \<and> delta (demo_frame 800 600 0) = 0 \<and>
   cameraTheta (snd (main_loop demo_glm [demo_frame 1600 900 0, demo_frame 800 600 0]
     (init_state blank_state))) = 0 \<and>
   map (\<lambda>c. View (call_uniform_data c)) (draw_calls (events (snd (main_loop demo_glm
       [demo_frame 1600 900 0, demo_frame 800 600 0] (init_state blank_state))))) =
     replicate 2 (Mat4 (Vec4 (5 * sqrt 2 / 2) (5 * sqrt 2 / 2) 0 0) (Vec4 0 0 0 0)
       (Vec4 0 1 0 0) (Vec4 0 0 0 1))"
proof -
  let ?run = "[demo_frame 1600 900 (1 / 2), demo_frame 800 600 (1 / 4)]"
  let ?still = "[demo_frame 1600 900 0, demo_frame 800 600 0]"
  have open1: "\<not> close_requested (demo_frame 1600 900 (1 / 2))"
    and open2: "\<not> close_requested (demo_frame 800 600 (1 / 4))"
    by (simp_all add: demo_frame_def)
  then have open_run: "\<forall>i \<in> set ?run. \<not> close_requested i"
    by simp
  have zero1: "delta (demo_frame 1600 900 0) = 0" and zero2: "delta (demo_frame 800 600 0) = 0"
    by (simp_all add: demo_frame_def)
  then have zero: "\<forall>i \<in> set ?still. delta i = 0"
    by simp
  have sum: "sum_list (map delta ?run) = 3 / 4"
    by (simp add: demo_frame_def)
  have count: "length (draw_calls (events (snd (main_loop demo_glm ?still
      (init_state blank_state))))) = 2"
    by (simp add: main_loop_draw_count [OF init_two] init_events demo_frame_def
        del: main_loop.simps)
  have look: "lookAt demo_glm (Vec3 (5 * sqrt 2 / 2) (5 * sqrt 2 / 2) 0) (Vec3 0 0 0) (Vec3 0 1 0) =
      Mat4 (Vec4 (5 * sqrt 2 / 2) (5 * sqrt 2 / 2) 0 0) (Vec4 0 0 0 0) (Vec4 0 1 0 0)
        (Vec4 0 0 0 1)"
    by (simp add: demo_glm_def)
  have still2: "take 2 ?still = ?still" by simp
  note run = camera_angle_is_tenth_of_time [of demo_glm ?run blank_state,
      THEN conjunct2, THEN conjunct1, THEN mp, OF open_run]
  note still = camera_angle_is_tenth_of_time [of demo_glm ?still blank_state,
      THEN conjunct2, THEN conjunct2, THEN mp, OF zero]
  have a: "cameraTheta (snd (main_loop demo_glm ?run (init_state blank_state))) = 3 / 40"
    unfolding run sum by simp
  have b: "cameraTheta (snd (main_loop demo_glm ?still (init_state blank_state))) = 0"
    using still [THEN conjunct1, THEN spec, of 2] unfolding still2 .
  have c: "map (\<lambda>c. View (call_uniform_data c)) (draw_calls (events (snd (main_loop demo_glm
       ?still (init_state blank_state))))) =
     replicate 2 (Mat4 (Vec4 (5 * sqrt 2 / 2) (5 * sqrt 2 / 2) 0 0) (Vec4 0 0 0 0)
       (Vec4 0 1 0 0) (Vec4 0 0 0 1))"
    using map_all_equal [OF still [THEN conjunct2]] unfolding look count .
  show ?thesis
    using open1 open2 a zero1 zero2 b c by (intro conjI)
qed

text \<open>
  C5. For every instance index i of N, the model transform the generator stores in
  instance i is scale(0.25) \<cdot> (rotation about Y by \<theta> \<cdot> translation by (0, 0, -0.5)) with
  \<theta> = 2\<pi>\<cdot>i/N: the rotation is the left factor of the displacement. Written out, the
  rotation block is the rotation scaled by 1/4 and the last column, the image of the
  instance's origin, is the rotated offset (sin \<theta> / 8, 0, - cos \<theta> / 8), which depends on i.
  The rotation has the sense of the comment in the source: it takes (x, y, z) to
  (x cos \<theta> - z sin \<theta>, y, x sin \<theta> + z cos \<theta>), so +X goes towards +Z (the opposite sense to a
  right-handed rotation about +Y by the same angle).
\<close>

theorem instance_model_composition:
  "i < n \<Longrightarrow>
   Model (make_instances draws n ! i) =
     mat4_mul (scaling (1 / 4))
       (mat4_mul (rotation_about_y (2 * pi * real i / real n))
          (translation (Vec3 0 0 (- 1 / 2)))) \<and>
   Model (make_instances draws n ! i) =
     (let c = cos (2 * pi * real i / real n); s = sin (2 * pi * real i / real n)
      in Mat4 (Vec4 (c / 4) 0 (s / 4) 0) (Vec4 0 (1 / 4) 0 0) (Vec4 (- s / 4) 0 (c / 4) 0)
           (Vec4 (s / 8) 0 (- c / 8) 1)) \<and>
   mat4_mul_vec (Model (make_instances draws n ! i)) (Vec4 0 0 0 1) =
     Vec4 (sin (2 * pi * real i / real n) / 8) 0 (- cos (2 * pi * real i / real n) / 8) 1 \<and>
   Model (make_instances draws n ! i) = instance_model n i \<and>
   mat4_mul_vec (rotation_about_y t) (Vec4 x y z w) =
     Vec4 (x * cos t - z * sin t) y (x * sin t + z * cos t) w"
  by (simp add: make_instances_model instance_model_def Let_def scale_matrix_eq
      rotation_matrix_eq translation_matrix_eq scaling_def rotation_about_y_def mult.commute)

theorem instance_model_composition_witness:
  "(1 :: nat) < 6 \<and>
   Model (instances (\<lambda>k. 300 + 77 * int k) ! 1) =
     mat4_mul (scaling (1 / 4))
       (mat4_mul (rotation_about_y (pi / 3)) (translation (Vec3 0 0 (- 1 / 2)))) \<and>
   Model (instances (\<lambda>k. 300 + 77 * int k) ! 1) =
     Mat4 (Vec4 (1 / 8) 0 (sqrt 3 / 8) 0) (Vec4 0 (1 / 4) 0 0) (Vec4 (- sqrt 3 / 8) 0 (1 / 8) 0)
       (Vec4 (sqrt 3 / 16) 0 (- 1 / 16) 1) \<and>
   mat4_mul_vec (Model (instances (\<lambda>k. 300 + 77 * int k) ! 1)) (Vec4 0 0 0 1) =
     Vec4 (sqrt 3 / 16) 0 (- 1 / 16) 1 \<and>
   mat4_mul_vec (rotation_about_y (pi / 2)) (Vec4 1 0 0 1) = Vec4 0 0 1 1"
proof -
  have lt: "(1 :: nat) < 6" by simp
  have ang: "2 * pi * real (1 :: nat) / real (6 :: nat) = pi / 3" by simp
  note T = instance_model_composition [OF lt, of "\<lambda>k. 300 + 77 * int k" "pi / 2" 1 0 0 1,
      unfolded ang, folded instances_def]
  have m: "Model (instances (\<lambda>k. 300 + 77 * int k) ! 1) =
      Mat4 (Vec4 (1 / 8) 0 (sqrt 3 / 8) 0) (Vec4 0 (1 / 4) 0 0) (Vec4 (- sqrt 3 / 8) 0 (1 / 8) 0)
        (Vec4 (sqrt 3 / 16) 0 (- 1 / 16) 1)"
    using T [THEN conjunct2, THEN conjunct1] by (simp add: Let_def cos_60 sin_60)
  have o: "mat4_mul_vec (Model (instances (\<lambda>k. 300 + 77 * int k) ! 1)) (Vec4 0 0 0 1) =
      Vec4 (sqrt 3 / 16) 0 (- 1 / 16) 1"
    using T [THEN conjunct2, THEN conjunct2, THEN conjunct1] by (simp add: cos_60 sin_60)
  have r: "mat4_mul_vec (rotation_about_y (pi / 2)) (Vec4 1 0 0 1) = Vec4 0 0 1 1"
    using T [THEN conjunct2, THEN conjunct2, THEN conjunct2, THEN conjunct2] by simp
  show ?thesis
    using lt T [THEN conjunct1] m o r by (intro conjI)
qed

text \<open>
  C6. Let validation run with the window at size A, from any depth pointer, so that the
  depth attachment is valid at A afterwards; let it then run with the window at a size
  B \<noteq> A. The second run makes exactly two calls: one \<^verbatim>\<open>image_free\<close> of the depth image of
  the first run and one \<^verbatim>\<open>image_allocate\<close> at B in the depth format; and the depth
  attachment it leaves has width and height B.
\<close>

theorem validate_resize:
  assumes "GetFramebufferSize wA \<noteq> GetFramebufferSize wB"
  shows "let (bufA, sA) = ValidateDepthBuffer wA buf0 s0;
             (bufB, sB) = ValidateDepthBuffer wB bufA sA
         in IsDepthBufferValid bufA (fst (GetFramebufferSize wA)) (snd (GetFramebufferSize wA)) \<and>
            events sB = events sA @
              [ImageFree bufA,
               ImageAllocate (fst (GetFramebufferSize wB)) (snd (GetFramebufferSize wB))
                 IMAGE_FORMAT_DEPTH] \<and>
            (case bufB of None \<Rightarrow> False
             | Some d \<Rightarrow> (image_width d, image_height d) = GetFramebufferSize wB)"
  using assms
  by (auto simp add: validate_cases GetFramebufferSize_def IsDepthBufferValid_def prod_eq_iff
      split: option.splits)

theorem validate_resize_witness:
  "GetFramebufferSize (polled (demo_frame 1600 900 0)) \<noteq>
     GetFramebufferSize (polled (demo_frame 800 600 0)) \<and>
   (let (bufA, sA) = ValidateDepthBuffer (polled (demo_frame 1600 900 0)) None
                       (init_state blank_state);
        (bufB, sB) = ValidateDepthBuffer (polled (demo_frame 800 600 0)) bufA sA
    in bufA = Some \<lparr>image_id = 0, image_width = 1600, image_height = 900,
                     image_format = IMAGE_FORMAT_DEPTH\<rparr> \<and>
       events sA = [ImageFree None, ImageAllocate 1600 900 IMAGE_FORMAT_DEPTH] \<and>
       events sB = events sA @ [ImageFree bufA, ImageAllocate 800 600 IMAGE_FORMAT_DEPTH] \<and>
       bufB = Some \<lparr>image_id = 1, image_width = 800, image_height = 600,
                     image_format = IMAGE_FORMAT_DEPTH\<rparr>)"
  using validate_resize [of "polled (demo_frame 1600 900 0)" "polled (demo_frame 800 600 0)"
      None "init_state blank_state"]
  by (simp add: validate_cases GetFramebufferSize_def IsDepthBufferValid_def demo_frame_def
      init_state_def blank_state_def)

text \<open>
  C7. Validation is idempotent in the size. Starting from a null depth pointer, the first
  call frees the null pointer and makes exactly one allocation, at the window's size; a
  second call with a window of the same size changes nothing: same pointer, same state, no
  further call. A second call at the same size changes nothing after a first call from any
  depth pointer.
\<close>

theorem validate_idempotent:
  assumes "GetFramebufferSize w' = GetFramebufferSize w"
  shows "(let (b1, s1) = ValidateDepthBuffer w None s
          in events s1 = events s @
               [ImageFree None,
                ImageAllocate (fst (GetFramebufferSize w)) (snd (GetFramebufferSize w))
                  IMAGE_FORMAT_DEPTH] \<and>
             ValidateDepthBuffer w' b1 s1 = (b1, s1)) \<and>
         (let (b1, s1) = ValidateDepthBuffer w buf s
          in ValidateDepthBuffer w' b1 s1 = (b1, s1))"
  using assms
  by (auto simp add: validate_cases GetFramebufferSize_def IsDepthBufferValid_def prod_eq_iff
      split: option.splits)

theorem validate_idempotent_witness:
  "GetFramebufferSize (polled (demo_frame 1600 900 1)) =
     GetFramebufferSize (polled (demo_frame 1600 900 0)) \<and>
   (let (b1, s1) = ValidateDepthBuffer (polled (demo_frame 1600 900 0)) None
                     (init_state blank_state)
    in events s1 = [ImageFree None, ImageAllocate 1600 900 IMAGE_FORMAT_DEPTH] \<and>
       ValidateDepthBuffer (polled (demo_frame 1600 900 1)) b1 s1 = (b1, s1) \<and>
       events (snd (ValidateDepthBuffer (polled (demo_frame 1600 900 1)) b1 s1)) =
         [ImageFree None, ImageAllocate 1600 900 IMAGE_FORMAT_DEPTH])"
  using validate_idempotent [of "polled (demo_frame 1600 900 1)" "polled (demo_frame 1600 900 0)"
      "init_state blank_state" None]
  by (simp add: validate_cases GetFramebufferSize_def IsDepthBufferValid_def demo_frame_def
      init_state_def blank_state_def)

text \<open>
  C8. For every vertex and instance, the vertex stage writes the position
  Projection \<cdot> View \<cdot> Model \<cdot> vec4(vertexPosition, 1), which it computes from the right
  (over the reals the product is the same however it is bracketed), and stores the
  instance's packed colour in the working data; the fragment stage run on that working data
  returns exactly that colour.
\<close>

theorem shader_stages:
  "fst (VertexShader v inst u) =
     mat4_mul_vec (mat4_mul (mat4_mul (Projection u) (View u)) (Model inst))
       (vec4_of_vec3 (Position v) 1) \<and>
   fst (VertexShader v inst u) =
     mat4_mul_vec (Projection u) (mat4_mul_vec (View u) (mat4_mul_vec (Model inst)
       (vec4_of_vec3 (Position v) 1))) \<and>
   snd (VertexShader v inst u) = \<lparr>wd_Color = Color inst\<rparr> \<and>
   FragmentShader (snd (VertexShader v inst u)) = Color inst"
  by (simp add: VertexShader_def FragmentShader_def mat4_mul_vec_assoc)

text \<open>
  C9. The instance generator produces exactly N instances (6 in \<^verbatim>\<open>main\<close>), and whatever
  values \<^verbatim>\<open>rand\<close> returns, the low byte of every instance's packed colour is 0xFF.
\<close>

theorem instances_count_and_alpha:
  "length (make_instances draws n) = n \<and>
   length (instances draws) = 6 \<and>
   (\<forall>inst \<in> set (make_instances draws n). Color inst AND 0xFF = 0xFF) \<and>
   (\<forall>inst \<in> set (instances draws). Color inst AND 0xFF = 0xFF)"
  by (auto simp add: make_instances_def instances_def fill_instances_length
      dest: fill_instances_low)

theorem instances_count_and_alpha_witness:
  "length (instances (\<lambda>k. 300 + 77 * int k)) = 6 \<and>
   map Color (instances (\<lambda>k. 300 + 77 * int k)) =
     [0xC6792CFF, 0xAD6013FF, 0x9447FAFF, 0x7B2EE1FF, 0x6215C8FF, 0x49FCAFFF] \<and>
   map (\<lambda>inst. Color inst AND 0xFF) (instances (\<lambda>k. 300 + 77 * int k)) = replicate 6 0xFF"
proof -
  note T = instances_count_and_alpha [of "\<lambda>k. 300 + 77 * int k" 6]
  have len: "length (instances (\<lambda>k. 300 + 77 * int k)) = 6"
    using T by (rule conjunct2 [THEN conjunct1])
  have cols: "map Color (instances (\<lambda>k. 300 + 77 * int k)) =
      [0xC6792CFF, 0xAD6013FF, 0x9447FAFF, 0x7B2EE1FF, 0x6215C8FF, 0x49FCAFFF]"
    by (simp add: instances_def make_instances_def upt_rec make_instance_def
        instance_color_def add_channel_def rand_def Let_def split_def)
  have low: "map (\<lambda>inst. Color inst AND 0xFF) (instances (\<lambda>k. 300 + 77 * int k)) =
      replicate 6 0xFF"
    using map_all_equal [OF T [THEN conjunct2, THEN conjunct2, THEN conjunct2]]
    unfolding len .
  show ?thesis
    using len cols low by (intro conjI)
qed

text \<open>
  C10. \<^verbatim>\<open>ClearFramebuffer\<close> is atomic on error: when the number of clear values differs from
  the framebuffer's attachment count, the error is raised with the state exactly as it was
  before the call: no \<^verbatim>\<open>framebuffer_clear\<close> (nor any other call) has been recorded, and the
  framebuffer record and its attachments, which the state holds, are untouched.
\<close>

theorem ClearFramebuffer_error_atomic:
  "length cv \<noteq> unat (attachment_count f) \<Longrightarrow>
   ClearFramebuffer f cv s = (Inl (runtime_error ''Attachment size mismatch!''), s)"
  by (simp add: ClearFramebuffer_def)

theorem ClearFramebuffer_error_atomic_witness:
  "length [color 0x787878FF] \<noteq> unat (attachment_count (fb (init_state blank_state))) \<and>
   ClearFramebuffer (fb (init_state blank_state)) [color 0x787878FF] (init_state blank_state) =
     (Inl (runtime_error ''Attachment size mismatch!''), init_state blank_state)"
  using ClearFramebuffer_error_atomic
      [of "[color 0x787878FF]" "fb (init_state blank_state)" "init_state blank_state"]
  by (simp add: init_state_def blank_state_def)

end
